theory Spec2Isabelle
  imports Complex_Main "HOL-Library.Multiset" "HOL-Library.AList"
begin

section \<open>Values, check results and Python's dynamic operations\<close>

text \<open>
  The two agents consume check results: JSON objects with the optional keys
  \<^verbatim>\<open>skill\<close>, \<^verbatim>\<open>status\<close>, \<^verbatim>\<open>data\<close>, \<^verbatim>\<open>notes\<close>, \<^verbatim>\<open>message\<close> and
  \<^verbatim>\<open>raw_output\<close>. \<^verbatim>\<open>data\<close> is a list of rows (dicts from field names to scalars) or,
  in the results that \<^verbatim>\<open>PostgresAgent._run_skill\<close> builds for a failure, a string.

  Modelling conventions.
  \<^item> Strings are lists of 8-bit characters. The four emoji of the report headers are
    written \<^verbatim>\<open>[v]\<close> (check mark), \<^verbatim>\<open>[x]\<close> (cross), \<^verbatim>\<open>[!]\<close> (orange circle) and
    \<^verbatim>\<open>[i]\<close> (yellow circle).
  \<^item> Python's \<^verbatim>\<open>int\<close> is \<open>int\<close>. Python's \<^verbatim>\<open>float\<close> is idealised as \<open>rat\<close>: every
    arithmetic operation is exact, there is no rounding, infinity or NaN.
  \<^item> An f-string is kept as the list of its pieces (\<open>cell\<close>): literal text and the
    interpolated values with their format, so that number formatting is not computed.
  \<^item> An exception is a value \<open>Inl e\<close>; the state a raising call had built is lost with
    it, as no caller in the source catches it.
\<close>

datatype error =
    KeyError string
  | TypeError
  | ValueError
  | AttributeError
  | ZeroDivisionError
  | IndexError

datatype scalar = SNull | SBool bool | SInt int | SFloat rat | SStr string

text \<open>A Python dict is an association list in insertion order with pairwise different
  keys: \<open>map_of\<close> reads it and \<open>AList.update\<close> is the assignment \<^verbatim>\<open>d[k] = v\<close>.\<close>

type_synonym row = "(string \<times> scalar) list"

datatype payload = Rows "row list" | Raw string

record result =
  r_skill :: "string option"
  r_status :: "string option"
  r_data :: "payload option"
  r_notes :: "string option"
  r_message :: "string option"
  r_raw_output :: "string option"

definition no_fields :: result where
  "no_fields = \<lparr>r_skill = None, r_status = None, r_data = None, r_notes = None,
     r_message = None, r_raw_output = None\<rparr>"

text \<open>An element of \<^verbatim>\<open>data\<close> when it is iterated or indexed: a row of a list, or a
  one-character string of a string.\<close>

datatype item = IRow row | IStr string

datatype cell =
    Lit string
  | Val scalar
  | Data payload
  | Fixed nat rat

type_synonym line = "cell list"

definition bindE :: "error + 'a \<Rightarrow> ('a \<Rightarrow> error + 'b) \<Rightarrow> error + 'b" where
  "bindE m f = (case m of Inl e \<Rightarrow> Inl e | Inr x \<Rightarrow> f x)"

text \<open>\<^verbatim>\<open>if data:\<close>, \<^verbatim>\<open>len(data)\<close> and \<^verbatim>\<open>for x in data\<close>.\<close>

fun data_truthy :: "payload \<Rightarrow> bool" where
  "data_truthy (Rows rs) = (rs \<noteq> [])"
| "data_truthy (Raw s) = (s \<noteq> [])"

fun data_len :: "payload \<Rightarrow> nat" where
  "data_len (Rows rs) = length rs"
| "data_len (Raw s) = length s"

fun items :: "payload \<Rightarrow> item list" where
  "items (Rows rs) = map IRow rs"
| "items (Raw s) = map (\<lambda>c. IStr [c]) s"

text \<open>\<^verbatim>\<open>x[key]\<close> and \<^verbatim>\<open>x.get(key, default)\<close> on an element of \<^verbatim>\<open>data\<close>.\<close>

fun subscript :: "item \<Rightarrow> string \<Rightarrow> error + scalar" where
  "subscript (IRow r) k = (case map_of r k of None \<Rightarrow> Inl (KeyError k) | Some v \<Rightarrow> Inr v)"
| "subscript (IStr s) k = Inl TypeError"

fun item_get :: "item \<Rightarrow> string \<Rightarrow> scalar \<Rightarrow> error + scalar" where
  "item_get (IRow r) k d = Inr (case map_of r k of None \<Rightarrow> d | Some v \<Rightarrow> v)"
| "item_get (IStr s) k d = Inl AttributeError"

text \<open>The numeric value of a scalar, for the arithmetic operators and comparisons:
  \<^verbatim>\<open>bool\<close> is a subclass of \<^verbatim>\<open>int\<close>; \<^verbatim>\<open>None\<close> and strings have none.\<close>

fun num_of :: "scalar \<Rightarrow> rat option" where
  "num_of (SInt i) = Some (of_int i)"
| "num_of (SFloat x) = Some x"
| "num_of (SBool b) = Some (if b then 1 else 0)"
| "num_of SNull = None"
| "num_of (SStr s) = None"

text \<open>\<^verbatim>\<open>a / b\<close>.\<close>

definition py_truediv :: "scalar \<Rightarrow> scalar \<Rightarrow> error + rat" where
  "py_truediv a b =
     (case num_of a of None \<Rightarrow> Inl TypeError
      | Some x \<Rightarrow>
         (case num_of b of None \<Rightarrow> Inl TypeError
          | Some y \<Rightarrow> if y = 0 then Inl ZeroDivisionError else Inr (x / y)))"

text \<open>\<^verbatim>\<open>a > n\<close> and \<^verbatim>\<open>a < n\<close> for a number \<open>n\<close>.\<close>

definition py_gt :: "scalar \<Rightarrow> rat \<Rightarrow> error + bool" where
  "py_gt a n = (case num_of a of None \<Rightarrow> Inl TypeError | Some x \<Rightarrow> Inr (x > n))"

definition py_lt :: "scalar \<Rightarrow> rat \<Rightarrow> error + bool" where
  "py_lt a n = (case num_of a of None \<Rightarrow> Inl TypeError | Some x \<Rightarrow> Inr (x < n))"

text \<open>\<^verbatim>\<open>float(v)\<close>. The conversion of a string is Python's own parser, the parameter
  \<open>str_float\<close> (\<open>None\<close> where it raises \<^verbatim>\<open>ValueError\<close>).\<close>

fun py_float :: "(string \<Rightarrow> rat option) \<Rightarrow> scalar \<Rightarrow> error + rat" where
  "py_float str_float (SInt i) = Inr (of_int i)"
| "py_float str_float (SFloat x) = Inr x"
| "py_float str_float (SBool b) = Inr (if b then 1 else 0)"
| "py_float str_float (SStr s) =
     (case str_float s of None \<Rightarrow> Inl ValueError | Some x \<Rightarrow> Inr x)"
| "py_float str_float SNull = Inl TypeError"

text \<open>Truth value of a scalar (\<^verbatim>\<open>if not slot["active"]\<close>).\<close>

fun truthy :: "scalar \<Rightarrow> bool" where
  "truthy SNull = False"
| "truthy (SBool b) = b"
| "truthy (SInt i) = (i \<noteq> 0)"
| "truthy (SFloat x) = (x \<noteq> 0)"
| "truthy (SStr s) = (s \<noteq> [])"

text \<open>\<^verbatim>\<open>needle in haystack\<close> for strings.\<close>

fun contains :: "string \<Rightarrow> string \<Rightarrow> bool" where
  "contains needle [] = (needle = [])"
| "contains needle (c # cs) =
     (take (length needle) (c # cs) = needle \<or> contains needle cs)"

text \<open>\<^verbatim>\<open>s.strip()\<close>: the characters below 256 that \<^verbatim>\<open>str.isspace\<close> accepts.\<close>

definition is_space :: "char \<Rightarrow> bool" where
  "is_space c =
     (let n = (of_char c :: nat)
      in (9 \<le> n \<and> n \<le> 13) \<or> (28 \<le> n \<and> n \<le> 32) \<or> n = 133 \<or> n = 160)"

definition strip :: "string \<Rightarrow> string" where
  "strip s = rev (dropWhile is_space (rev (dropWhile is_space s)))"

text \<open>\<^verbatim>\<open>str(n)\<close> for an integer.\<close>

fun str_nat :: "nat \<Rightarrow> string" where
  "str_nat n =
     (if n < 10 then [char_of (48 + n)]
      else str_nat (n div 10) @ [char_of (48 + n mod 10)])"

declare str_nat.simps [simp del]

definition str_int :: "int \<Rightarrow> string" where
  "str_int i = (if i < 0 then CHR ''-'' # str_nat (nat (- i)) else str_nat (nat i))"

text \<open>\<^verbatim>\<open>xs[i] = v\<close>: a negative index counts from the end.\<close>

definition py_setitem :: "'a list \<Rightarrow> int \<Rightarrow> 'a \<Rightarrow> error + 'a list" where
  "py_setitem xs i v =
     (if 0 \<le> i \<and> i < int (length xs) then Inr (xs[nat i := v])
      else if i < 0 \<and> - int (length xs) \<le> i then Inr (xs[nat (int (length xs) + i) := v])
      else Inl IndexError)"

section \<open>Severity and the status aggregator of the PostgreSQL agent\<close>

text \<open>
  \<^verbatim>\<open>PostgresAgent.report_status\<close> holds one of three string constants: the OK banner
  it is initialised with in \<^verbatim>\<open>__init__\<close>, and the WARNING and ERROR banners that
  \<^verbatim>\<open>_update_status\<close> is called with. The three constants are the three constructors of
  \<open>severity\<close>.
\<close>

datatype severity = OK | WARNING | ERROR

fun sev_rank :: "severity \<Rightarrow> nat" where
  "sev_rank OK = 0"
| "sev_rank WARNING = 1"
| "sev_rank ERROR = 2"

instantiation severity :: linorder
begin

definition less_eq_severity :: "severity \<Rightarrow> severity \<Rightarrow> bool" where
  "less_eq_severity a b = (sev_rank a \<le> sev_rank b)"

definition less_severity :: "severity \<Rightarrow> severity \<Rightarrow> bool" where
  "less_severity a b = (sev_rank a < sev_rank b)"

instance
proof
  fix x y z :: severity
  show "(x < y) = (x \<le> y \<and> \<not> y \<le> x)"
    by (auto simp: less_eq_severity_def less_severity_def)
  show "x \<le> x"
    by (simp add: less_eq_severity_def)
  show "x \<le> y \<Longrightarrow> y \<le> z \<Longrightarrow> x \<le> z"
    by (simp add: less_eq_severity_def)
  show "x \<le> y \<Longrightarrow> y \<le> x \<Longrightarrow> x = y"
    by (cases x; cases y) (simp_all add: less_eq_severity_def)
  show "x \<le> y \<or> y \<le> x"
    by (auto simp: less_eq_severity_def)
qed

end

text \<open>
  \<^verbatim>\<open>
  def _update_status(self, new_status):
      if new_status == ERROR:
          self.report_status = ERROR
      elif new_status == WARNING and self.report_status != ERROR:
          self.report_status = WARNING
  \<close>
  The stored status is the second argument and the result.
\<close>

definition update_status :: "severity \<Rightarrow> severity \<Rightarrow> severity" where
  "update_status new_status report_status =
     (if new_status = ERROR then ERROR
      else if new_status = WARNING \<and> report_status \<noteq> ERROR then WARNING
      else report_status)"

section \<open>The PostgreSQL agent\<close>

text \<open>The fields of \<^verbatim>\<open>PostgresAgent\<close> that a run changes.\<close>

record pg_state =
  report :: "line list"
  report_status :: severity
  raw_results :: "(string \<times> result) list"

definition pg_init :: pg_state where
  "pg_init = \<lparr>report = [], report_status = OK, raw_results = []\<rparr>"

text \<open>\<^verbatim>\<open>self.report.append(l)\<close> for each \<open>l\<close> of \<open>ls\<close>, and
  \<^verbatim>\<open>self._update_status(sev)\<close>.\<close>

definition emit :: "line list \<Rightarrow> pg_state \<Rightarrow> pg_state" where
  "emit ls st = st\<lparr>report := report st @ ls\<rparr>"

definition escalate :: "severity \<Rightarrow> pg_state \<Rightarrow> pg_state" where
  "escalate sev st = st\<lparr>report_status := update_status sev (report_status st)\<rparr>"

subsection \<open>\<^verbatim>\<open>_bytes_to_human_readable\<close>\<close>

fun human_units :: "rat \<Rightarrow> string list \<Rightarrow> line" where
  "human_units x [] = [Fixed 2 x, Lit '' PB'']"
| "human_units x (unit # units) =
     (if \<bar>x\<bar> < 1024 then [Fixed 2 x, Lit ('' '' @ unit)]
      else human_units (x / 1024) units)"

text \<open>The argument is \<^verbatim>\<open>None\<close> or a number; every caller passes a float.\<close>

definition bytes_to_human_readable :: "rat option \<Rightarrow> line" where
  "bytes_to_human_readable num_bytes =
     (case num_bytes of
        None \<Rightarrow> [Lit ''N/A'']
      | Some x \<Rightarrow> human_units x [''bytes'', ''KB'', ''MB'', ''GB'', ''TB''])"

subsection \<open>\<^verbatim>\<open>_run_skill\<close>\<close>

text \<open>
  What running the executor script does: it completes with a return code, standard
  output and standard error, or \<^verbatim>\<open>subprocess.run\<close> raises
  \<^verbatim>\<open>subprocess.TimeoutExpired\<close>, or something in the \<^verbatim>\<open>try\<close> block raises another
  exception; the last two carry the text of the exception.
  \<open>json_loads\<close> is \<^verbatim>\<open>json.loads\<close>, a parameter: \<open>Inl msg\<close> where it raises
  \<^verbatim>\<open>json.JSONDecodeError\<close>, and otherwise the decoded object, taken to be a check result.
\<close>

datatype proc_outcome =
    Completed int string string
  | TimedOut string
  | Raised string

definition fail_result :: "string \<Rightarrow> string \<Rightarrow> result" where
  "fail_result skill_name txt =
     no_fields\<lparr>r_skill := Some skill_name, r_status := Some ''fail'',
       r_data := Some (Raw txt)\<rparr>"

definition run_skill ::
  "(string \<Rightarrow> string + result) \<Rightarrow> string \<Rightarrow> proc_outcome \<Rightarrow> result" where
  "run_skill json_loads skill_name outcome =
     (case outcome of
        Completed returncode stdout stderr \<Rightarrow>
          if returncode \<noteq> 0 then
            if contains ''does not exist'' stderr then
              no_fields\<lparr>r_skill := Some skill_name, r_status := Some ''success'',
                r_data := Some (Rows []),
                r_notes := Some (''view or table does not exist: '' @ stderr)\<rparr>
            else
              fail_result skill_name
                (''Script execution failed with code '' @ str_int returncode @ '': '' @ stderr)
          else if strip stdout = [] then
            no_fields\<lparr>r_skill := Some skill_name, r_status := Some ''success'',
              r_data := Some (Rows [])\<rparr>
          else
            (case json_loads stdout of
               Inr res \<Rightarrow> res
             | Inl e \<Rightarrow>
                 fail_result skill_name
                   (''Failed to parse JSON output: '' @ e @ ''. Raw output: '' @ stdout))
      | TimedOut e \<Rightarrow> fail_result skill_name (''An unexpected error occurred: '' @ e)
      | Raised e \<Rightarrow> fail_result skill_name (''An unexpected error occurred: '' @ e))"

subsection \<open>The branches of \<^verbatim>\<open>_analyze_and_report\<close>\<close>

text \<open>\<^verbatim>\<open>get_blocking_locks\<close>.\<close>

fun lock_loop :: "item list \<Rightarrow> pg_state \<Rightarrow> error + pg_state" where
  "lock_loop [] st = Inr st"
| "lock_loop (lock # locks) st =
     bindE (subscript lock ''waiting_pid'') (\<lambda>waiting.
     bindE (subscript lock ''blocking_pid'') (\<lambda>blocking.
       lock_loop locks
         (emit [[Lit ''- **Waiting PID:** '', Val waiting,
                 Lit '' is blocked by **Blocking PID:** '', Val blocking, Lit ''.'']] st)))"

definition blocking_locks :: "payload \<Rightarrow> pg_state \<Rightarrow> error + pg_state" where
  "blocking_locks data st =
     (if data_truthy data then
        bindE (lock_loop (items data)
                 (emit [[Lit ''### [x] ERROR: Blocking Locks Detected''],
                        [Lit ''Found '', Val (SInt (int (data_len data))),
                         Lit '' blocking lock situations.'']] st))
          (\<lambda>st'. Inr (escalate ERROR st'))
      else Inr (emit [[Lit ''### [v] OK: No Blocking Locks'']] st))"

text \<open>\<^verbatim>\<open>get_table_bloat\<close> and \<^verbatim>\<open>get_index_bloat\<close>. The loop carries
  \<^verbatim>\<open>has_bloat_warning\<close> and the report.\<close>

fun bloat_loop ::
  "(string \<Rightarrow> rat option) \<Rightarrow> item list \<Rightarrow> bool \<Rightarrow> pg_state \<Rightarrow> error + (bool \<times> pg_state)"
  where
  "bloat_loop str_float [] has_bloat_warning st = Inr (has_bloat_warning, st)"
| "bloat_loop str_float (item # rest) has_bloat_warning st =
     bindE (item_get item ''bloat_percentage'' (SInt 0)) (\<lambda>v1.
     bindE (py_float str_float v1) (\<lambda>bloat_pct.
     bindE (item_get item ''wasted_bytes'' (SInt 0)) (\<lambda>v2.
     bindE (py_float str_float v2) (\<lambda>wasted_bytes.
     bindE (item_get item ''total_bytes'' (SInt 0)) (\<lambda>v3.
     bindE (py_float str_float v3) (\<lambda>total_bytes.
     bindE (item_get item ''schemaname'' (SStr ''N/A'')) (\<lambda>schemaname.
     bindE (item_get item ''index_name'' (SStr ''N/A'')) (\<lambda>index_name.
     bindE (item_get item ''tablename'' index_name) (\<lambda>tablename.
       bloat_loop str_float rest
         (if bloat_pct > 20 \<and> wasted_bytes > 100 * 1024 ^ 2 then True
          else has_bloat_warning)
         (emit [[Lit ''| '', Val schemaname, Lit '' | `'', Val tablename, Lit ''` | '']
                 @ bytes_to_human_readable (Some total_bytes)
                 @ [Lit '' | '', Fixed 2 bloat_pct, Lit ''% | '']
                 @ bytes_to_human_readable (Some wasted_bytes)
                 @ [Lit '' |'']] st))))))))))"

definition bloat :: "(string \<Rightarrow> rat option) \<Rightarrow> string \<Rightarrow> payload \<Rightarrow> pg_state \<Rightarrow> error + pg_state"
  where
  "bloat str_float skill data st =
     (let obj_type = (if skill = ''get_table_bloat'' then ''Table'' else ''Index'');
          st1 = emit [[Lit (''### [i] INFO: Top 10 Bloated '' @ obj_type @ ''s'')]] st
      in if data_truthy data then
           bindE (bloat_loop str_float (items data) False
                    (emit [[Lit (''| Schema | '' @ obj_type
                                   @ '' Name | Total Size | Bloat % | Wasted Space |'')],
                           [Lit ''|---|---|---|---|---|'']] st1))
             (\<lambda>(has_bloat_warning, st2).
                if has_bloat_warning then
                  bindE (py_setitem (report st2)
                           (int (length (report st2)) - int (data_len data) - 2)
                           [Lit (''### [!] WARNING: Significant '' @ obj_type
                                   @ '' Bloat Detected'')])
                    (\<lambda>rep. Inr (escalate WARNING (st2\<lparr>report := rep\<rparr>)))
                else Inr st2)
         else
           Inr (emit [[Lit (''No significant '' @ (if skill = ''get_table_bloat'' then ''table''
                              else ''index'')
                            @ '' bloat detected (or objects are too small/new to check).'')]]
                  st1))"

text \<open>\<^verbatim>\<open>get_connection_usage\<close>.\<close>

definition connection_usage :: "payload \<Rightarrow> pg_state \<Rightarrow> error + pg_state" where
  "connection_usage data st =
     (case items data of
        [] \<Rightarrow> Inr (emit [[Lit ''### [i] INFO: Connection Usage'']] st)
      | first # others \<Rightarrow>
          bindE (subscript first ''used_connections'') (\<lambda>used.
          bindE (subscript first ''max_connections'') (\<lambda>max_conn.
          bindE (py_truediv used max_conn) (\<lambda>q.
            let usage_percent = q * 100;
                st1 =
                  (if usage_percent > 95 then
                     escalate ERROR
                       (emit [[Lit ''### [x] ERROR: High Connection Usage ('',
                               Fixed 1 usage_percent, Lit ''%)'']] st)
                   else if usage_percent > 80 then
                     escalate WARNING
                       (emit [[Lit ''### [!] WARNING: High Connection Usage ('',
                               Fixed 1 usage_percent, Lit ''%)'']] st)
                   else
                     emit [[Lit ''### [v] OK: Connection Usage ('',
                            Fixed 1 usage_percent, Lit ''%)'']] st)
            in Inr (emit [[Lit ''Current active connections: '', Val used, Lit '' / '',
                           Val max_conn]] st1)))))"

text \<open>\<^verbatim>\<open>get_replication_slots\<close>. The first test reads \<^verbatim>\<open>result.get("notes")\<close>, which is
  \<^verbatim>\<open>None\<close> for an absent key; the last one reads \<^verbatim>\<open>notes\<close>, which is then the empty
  string.\<close>

fun slot_loop :: "item list \<Rightarrow> bool \<Rightarrow> pg_state \<Rightarrow> error + (bool \<times> pg_state)" where
  "slot_loop [] has_issue st = Inr (has_issue, st)"
| "slot_loop (slot # slots) has_issue st =
     bindE (subscript slot ''active'') (\<lambda>active.
       if \<not> truthy active then
         bindE (subscript slot ''restart_lsn_lag_bytes'') (\<lambda>lag_bytes.
         bindE (py_truediv lag_bytes (SInt (1024 ^ 3))) (\<lambda>lag_gb.
         bindE (subscript slot ''slot_name'') (\<lambda>slot_name.
           slot_loop slots True
             (escalate ERROR
               (emit [[Lit ''- **'', Val slot_name,
                       Lit ''**: [x] **ERROR** - Slot is INACTIVE, holding back WAL logs by '',
                       Fixed 2 lag_gb, Lit '' GB.'']] st)))))
       else slot_loop slots has_issue st)"

definition replication_slots ::
  "string option \<Rightarrow> string \<Rightarrow> payload \<Rightarrow> pg_state \<Rightarrow> error + pg_state" where
  "replication_slots result_notes notes data st =
     (let st1 = emit [[Lit ''### [i] INFO: Replication Slots Status'']] st
      in if \<not> data_truthy data \<and> result_notes \<noteq> Some ''view or table does not exist'' then
           Inr (emit [[Lit ''No replication slots found.'']] st1)
         else if data_truthy data then
           bindE (slot_loop (items data) False st1)
             (\<lambda>(has_issue, st2).
                if \<not> has_issue then Inr (emit [[Lit ''All replication slots are active.'']] st2)
                else Inr st2)
         else if contains ''does not exist'' notes then
           Inr (emit [[Lit ''Replication slots are not applicable or view does not exist.'']] st1)
         else Inr st1)"

text \<open>\<^verbatim>\<open>get_replication_status\<close>. The loop carries \<^verbatim>\<open>has_lag\<close> and the agent's
  state.\<close>

fun replica_loop :: "item list \<Rightarrow> bool \<Rightarrow> pg_state \<Rightarrow> error + (bool \<times> pg_state)" where
  "replica_loop [] has_lag st = Inr (has_lag, st)"
| "replica_loop (replica # replicas) has_lag st =
     bindE (item_get replica ''replay_lag_bytes'' (SInt 0)) (\<lambda>lag_bytes.
     bindE (py_truediv lag_bytes (SInt (1024 ^ 2))) (\<lambda>lag_mb.
     bindE (item_get replica ''client_addr'' (SStr ''N/A'')) (\<lambda>client_addr.
     bindE (item_get replica ''state'' SNull) (\<lambda>state.
       let st1 = emit [[Lit ''- **Replica:** `'', Val client_addr, Lit ''`, **State:** `'',
                        Val state, Lit ''`, **Replay Lag:** `'', Fixed 2 lag_mb,
                        Lit '' MB`'']] st
       in if lag_mb > 1024 then replica_loop replicas True (escalate ERROR st1)
          else if lag_mb > 100 then replica_loop replicas True (escalate WARNING st1)
          else replica_loop replicas has_lag st1))))"

definition replication_status :: "payload \<Rightarrow> pg_state \<Rightarrow> error + pg_state" where
  "replication_status data st =
     (let st1 = emit [[Lit ''### [i] INFO: Replication Status'']] st
      in if \<not> data_truthy data then
           Inr (emit [[Lit ''No active replicas found (normal for a standalone instance).'']] st1)
         else
           bindE (replica_loop (items data) False st1)
             (\<lambda>(has_lag, st2).
                if has_lag then
                  bindE (py_setitem (report st2) (- int (data_len data) - 1)
                           [Lit ''### [!] WARNING: Replication Lag Detected''])
                    (\<lambda>rep. Inr (st2\<lparr>report := rep\<rparr>))
                else Inr st2))"

subsection \<open>\<^verbatim>\<open>_analyze_and_report\<close>\<close>

text \<open>
  The dispatch on the skill name. The branches of the skills that the properties below
  are about are the definitions above; the branches of the other skills (and the
  fall-through of a name that no branch matches) are the parameter \<open>other_skills\<close>.
  The names of the branches are pairwise different, so their order does not matter.
\<close>

definition analyze_and_report ::
  "(string \<Rightarrow> rat option) \<Rightarrow> (string \<Rightarrow> result \<Rightarrow> pg_state \<Rightarrow> error + pg_state)
     \<Rightarrow> result \<Rightarrow> pg_state \<Rightarrow> error + pg_state" where
  "analyze_and_report str_float other_skills res st =
     (let skill = (case r_skill res of None \<Rightarrow> ''unknown_skill'' | Some s \<Rightarrow> s);
          status = (case r_status res of None \<Rightarrow> ''fail'' | Some s \<Rightarrow> s);
          data = (case r_data res of None \<Rightarrow> Rows [] | Some d \<Rightarrow> d);
          notes = (case r_notes res of None \<Rightarrow> [] | Some n \<Rightarrow> n)
      in if status \<noteq> ''success'' then
           Inr (escalate ERROR
                 (emit [[Lit ''### [x] Skill Failed: `'', Lit skill, Lit ''`''],
                        [Lit ''Error details: `'', Data data, Lit ''`'']] st))
         else if skill = ''get_blocking_locks'' then blocking_locks data st
         else if skill = ''get_table_bloat'' \<or> skill = ''get_index_bloat'' then
           bloat str_float skill data st
         else if skill = ''get_connection_usage'' then connection_usage data st
         else if skill = ''get_replication_slots'' then
           replication_slots (r_notes res) notes data st
         else if skill = ''get_replication_status'' then replication_status data st
         else other_skills skill res st)"

subsection \<open>\<^verbatim>\<open>run_checks\<close> and the script's entry point\<close>

definition checklist :: "string list" where
  "checklist =
    [''get_invalid_indexes'', ''get_xid_wraparound_risk'', ''get_multixid_wraparound_risk'',
     ''get_freeze_prediction'', ''get_blocking_locks'',
     ''get_long_running_prepared_transactions'', ''get_long_running_transactions'',
     ''get_critical_settings'', ''get_sequence_exhaustion'', ''get_replication_slots'',
     ''get_wal_archiver_status'', ''get_logical_replication_status'',
     ''get_replication_status'', ''get_wait_events'', ''get_long_running_queries'',
     ''get_idle_in_transaction_sessions'', ''get_connection_usage'', ''get_cache_hit_rate'',
     ''get_rollback_rate'', ''get_top_sql_by_time'', ''get_stale_statistics'',
     ''get_large_unused_indexes'', ''get_autovacuum_status'', ''get_bgwriter_stats'',
     ''get_temp_file_usage'', ''get_total_temp_bytes'', ''get_io_statistics'',
     ''get_io_statistics_v2'', ''get_analyze_progress'', ''get_create_index_progress'',
     ''get_cluster_progress'', ''get_wal_statistics'', ''get_checkpointer_stats'',
     ''get_checkpointer_write_sync_time'', ''get_slru_stats'',
     ''get_database_conflict_stats'', ''get_user_function_stats'',
     ''get_deadlock_detection'', ''get_lock_waiters'', ''get_connection_security_status'',
     ''get_table_hotspots'', ''get_top_objects_by_size'', ''get_table_bloat'',
     ''get_index_bloat'', ''get_database_sizes'']"

definition separator :: line where
  "separator = [Lit [CHR 0x0A, CHR ''-'', CHR ''-'', CHR ''-'', CHR 0x0A]]"

text \<open>The loop of \<^verbatim>\<open>run_checks\<close>; \<open>exec skill\<close> is what the executor script does when it
  is run for \<open>skill\<close>.\<close>

fun checks_loop ::
  "(string \<Rightarrow> string + result) \<Rightarrow> (string \<Rightarrow> rat option)
     \<Rightarrow> (string \<Rightarrow> result \<Rightarrow> pg_state \<Rightarrow> error + pg_state)
     \<Rightarrow> (string \<Rightarrow> proc_outcome) \<Rightarrow> string list \<Rightarrow> pg_state \<Rightarrow> error + pg_state" where
  "checks_loop json_loads str_float other_skills exec [] st = Inr st"
| "checks_loop json_loads str_float other_skills exec (skill # skills) st =
     (let res = run_skill json_loads skill (exec skill);
          st1 = st\<lparr>raw_results := AList.update skill res (raw_results st)\<rparr>
      in bindE (analyze_and_report str_float other_skills res st1)
           (\<lambda>st2. checks_loop json_loads str_float other_skills exec skills
                    (emit [separator] st2)))"

text \<open>\<^verbatim>\<open>generate_report\<close>: the lines of the Markdown document after the title line. The
  two files are taken to be written without an I/O error.\<close>

definition generate_report :: "pg_state \<Rightarrow> severity \<times> line list" where
  "generate_report st =
     (report_status st, rev (dropWhile (\<lambda>l. l = separator) (rev (report st))))"

definition run_checks ::
  "(string \<Rightarrow> string + result) \<Rightarrow> (string \<Rightarrow> rat option)
     \<Rightarrow> (string \<Rightarrow> result \<Rightarrow> pg_state \<Rightarrow> error + pg_state)
     \<Rightarrow> (string \<Rightarrow> proc_outcome) \<Rightarrow> error + severity \<times> line list" where
  "run_checks json_loads str_float other_skills exec =
     bindE (checks_loop json_loads str_float other_skills exec checklist pg_init)
       (\<lambda>st. Inr (generate_report st))"

text \<open>
  \<^verbatim>\<open>
  if __name__ == "__main__":
      agent = PostgresAgent()
      agent.run_checks()
  \<close>
  The exit code of the process: 1 when an exception reaches the top level, 0 when the
  script runs to its end; the script calls \<^verbatim>\<open>sys.exit\<close> nowhere.
\<close>

definition pg_main ::
  "(string \<Rightarrow> string + result) \<Rightarrow> (string \<Rightarrow> rat option)
     \<Rightarrow> (string \<Rightarrow> result \<Rightarrow> pg_state \<Rightarrow> error + pg_state)
     \<Rightarrow> (string \<Rightarrow> proc_outcome) \<Rightarrow> int" where
  "pg_main json_loads str_float other_skills exec =
     (case run_checks json_loads str_float other_skills exec of
        Inl e \<Rightarrow> 1
      | Inr doc \<Rightarrow> 0)"

section \<open>The PolarDB agent\<close>

subsection \<open>\<^verbatim>\<open>run_check\<close>\<close>

definition run_check ::
  "(string \<Rightarrow> string + result) \<Rightarrow> string \<Rightarrow> proc_outcome \<Rightarrow> result" where
  "run_check json_loads check_name outcome =
     (case outcome of
        Completed returncode stdout stderr \<Rightarrow>
          (let output = strip stdout;
               output = (if output = [] then strip stderr else output)
           in case json_loads output of
                Inr data \<Rightarrow> data
              | Inl e \<Rightarrow>
                  no_fields\<lparr>r_skill := Some check_name, r_status := Some ''unknown'',
                    r_raw_output := Some output\<rparr>)
      | TimedOut e \<Rightarrow>
          no_fields\<lparr>r_skill := Some check_name, r_status := Some ''timeout'',
            r_message := Some ''Check timed out after 60 seconds''\<rparr>
      | Raised e \<Rightarrow>
          no_fields\<lparr>r_skill := Some check_name, r_status := Some ''error'',
            r_message := Some e\<rparr>)"

subsection \<open>\<^verbatim>\<open>run_all_checks\<close>\<close>

definition polardb_core_checks :: "string list" where
  "polardb_core_checks =
     [''get_polar_node_type'', ''get_logindex_status'', ''get_pfs_usage'',
      ''get_polar_process_status'', ''get_polar_activity'']"

definition htap_checks :: "string list" where
  "htap_checks =
     [''get_px_workers_status'', ''get_px_query_stats'', ''get_px_nodes'',
      ''get_buffer_pool_affinity'']"

definition storage_checks :: "string list" where
  "storage_checks =
     [''get_shared_storage_stats'', ''get_polar_io_stats'', ''get_dirty_page_status'']"

definition ha_checks :: "string list" where
  "ha_checks =
     [''get_primary_readonly_sync'', ''get_online_promote_status'', ''get_recovery_progress'']"

definition pg_checks :: "string list" where
  "pg_checks =
     [''get_connection_usage'', ''get_cache_hit_rate'', ''get_long_running_queries'',
      ''get_idle_in_transaction_sessions'', ''get_replication_status'',
      ''get_replication_slots'', ''get_autovacuum_status'', ''get_wal_archiver_status'']"

text \<open>One \<^verbatim>\<open>for check in ...: self.results[check] = self.run_check(check)\<close> loop.\<close>

definition check_group ::
  "(string \<Rightarrow> string + result) \<Rightarrow> (string \<Rightarrow> proc_outcome) \<Rightarrow> string list
     \<Rightarrow> (string \<times> result) list \<Rightarrow> (string \<times> result) list" where
  "check_group json_loads exec checks results =
     fold (\<lambda>check m. AList.update check (run_check json_loads check (exec check)) m)
       checks results"

definition run_all_checks ::
  "(string \<Rightarrow> string + result) \<Rightarrow> (string \<Rightarrow> proc_outcome) \<Rightarrow> (string \<times> result) list"
  where
  "run_all_checks json_loads exec =
     check_group json_loads exec pg_checks
       (check_group json_loads exec ha_checks
         (check_group json_loads exec storage_checks
           (check_group json_loads exec htap_checks
             (check_group json_loads exec polardb_core_checks []))))"

subsection \<open>\<^verbatim>\<open>analyze_results\<close>\<close>

record finding =
  f_type :: string
  f_check :: string
  f_message :: line
  f_recommendation :: string

text \<open>The fields of \<^verbatim>\<open>PolarDBCheckAgent\<close> that a run changes. \<^verbatim>\<open>analyze_results\<close> stores
  the first row of \<^verbatim>\<open>get_polar_node_type\<close> in \<^verbatim>\<open>self.results["node_info"]\<close>; that
  entry, which is not a check result, is the field \<open>node_info\<close> here.\<close>

record polar_state =
  results :: "(string \<times> result) list"
  node_info :: "item option"
  issues :: "finding list"
  warnings :: "finding list"

definition polar_init :: "(string \<times> result) list \<Rightarrow> polar_state" where
  "polar_init rs = \<lparr>results = rs, node_info = None, issues = [], warnings = []\<rparr>"

text \<open>
  \<^verbatim>\<open>
  if data.get("status") == "success" and data.get("data"):
      x = data["data"][0] if data["data"] else {}
  \<close>
  \<open>None\<close> when the test fails, and the first element of \<^verbatim>\<open>data\<close> otherwise.
\<close>

definition first_of_success :: "result \<Rightarrow> item option" where
  "first_of_success data =
     (if r_status data = Some ''success'' then
        (case r_data data of
           None \<Rightarrow> None
         | Some d \<Rightarrow> (case items d of [] \<Rightarrow> None | x # xs \<Rightarrow> Some x))
      else None)"

definition critical :: "string \<Rightarrow> line \<Rightarrow> string \<Rightarrow> finding" where
  "critical check msg rec =
     \<lparr>f_type = ''critical'', f_check = check, f_message = msg, f_recommendation = rec\<rparr>"

definition warning :: "string \<Rightarrow> line \<Rightarrow> string \<Rightarrow> finding" where
  "warning check msg rec =
     \<lparr>f_type = ''warning'', f_check = check, f_message = msg, f_recommendation = rec\<rparr>"

definition add_issue :: "finding \<Rightarrow> polar_state \<Rightarrow> polar_state" where
  "add_issue f st = st\<lparr>issues := issues st @ [f]\<rparr>"

definition add_warning :: "finding \<Rightarrow> polar_state \<Rightarrow> polar_state" where
  "add_warning f st = st\<lparr>warnings := warnings st @ [f]\<rparr>"

text \<open>\<open>on_success check st f\<close>: the body \<open>f\<close> of one
  \<^verbatim>\<open>if check in self.results: ... if success and data: ...\<close> block, run on the first
  element of the data.\<close>

definition on_success ::
  "string \<Rightarrow> polar_state \<Rightarrow> (item \<Rightarrow> error + polar_state) \<Rightarrow> error + polar_state" where
  "on_success check st f =
     (case map_of (results st) check of
        None \<Rightarrow> Inr st
      | Some data \<Rightarrow> (case first_of_success data of None \<Rightarrow> Inr st | Some x \<Rightarrow> f x))"

definition analyze_node_type :: "polar_state \<Rightarrow> error + polar_state" where
  "analyze_node_type st =
     on_success ''get_polar_node_type'' st (\<lambda>node. Inr (st\<lparr>node_info := Some node\<rparr>))"

definition analyze_logindex :: "polar_state \<Rightarrow> error + polar_state" where
  "analyze_logindex st =
     on_success ''get_logindex_status'' st (\<lambda>lag_info.
       bindE (item_get lag_info ''lag_bytes'' (SInt 0)) (\<lambda>lag_bytes.
       bindE (item_get lag_info ''lag_mb'' (SInt 0)) (\<lambda>lag_mb.
       bindE (py_gt lag_bytes 1073741824) (\<lambda>is_critical.
         if is_critical then
           Inr (add_issue (critical ''get_logindex_status''
                  [Lit ''LogIndex replay lag is critical: '', Val lag_mb, Lit ''MB'']
                  ''Check storage I/O performance and network bandwidth between compute and storage nodes'')
                st)
         else
           bindE (py_gt lag_bytes 104857600) (\<lambda>is_elevated.
             if is_elevated then
               Inr (add_warning (warning ''get_logindex_status''
                      [Lit ''LogIndex replay lag is elevated: '', Val lag_mb, Lit ''MB'']
                      ''Monitor storage I/O performance'') st)
             else Inr st)))))"

text \<open>The PFS block only binds \<^verbatim>\<open>storage_info\<close>.\<close>

definition analyze_pfs :: "polar_state \<Rightarrow> error + polar_state" where
  "analyze_pfs st = on_success ''get_pfs_usage'' st (\<lambda>storage_info. Inr st)"

definition analyze_connection_usage :: "polar_state \<Rightarrow> error + polar_state" where
  "analyze_connection_usage st =
     on_success ''get_connection_usage'' st (\<lambda>conn_info.
       bindE (item_get conn_info ''current_connections'' (SInt 0)) (\<lambda>current.
       bindE (item_get conn_info ''max_connections'' (SInt 100)) (\<lambda>max_conn.
       bindE (py_gt max_conn 0) (\<lambda>positive.
       bindE (if positive then bindE (py_truediv current max_conn) (\<lambda>q. Inr (q * 100))
              else Inr 0) (\<lambda>usage_pct.
         if usage_pct > 95 then
           Inr (add_issue (critical ''get_connection_usage''
                  [Lit ''Connection usage is critical: '', Val current, Lit ''/'', Val max_conn,
                   Lit '' ('', Fixed 1 usage_pct, Lit ''%)'']
                  ''Increase max_connections or optimize connection pooling'') st)
         else if usage_pct > 80 then
           Inr (add_warning (warning ''get_connection_usage''
                  [Lit ''Connection usage is high: '', Val current, Lit ''/'', Val max_conn,
                   Lit '' ('', Fixed 1 usage_pct, Lit ''%)'']
                  ''Monitor connection growth and consider connection pooling'') st)
         else Inr st)))))"

definition analyze_cache_hit_rate :: "polar_state \<Rightarrow> error + polar_state" where
  "analyze_cache_hit_rate st =
     on_success ''get_cache_hit_rate'' st (\<lambda>cache_info.
       bindE (item_get cache_info ''hit_ratio'' (SInt 100)) (\<lambda>hit_ratio.
       bindE (py_lt hit_ratio 99) (\<lambda>low.
         if low then
           Inr (add_warning (warning ''get_cache_hit_rate''
                  [Lit ''Cache hit rate is low: '', Val hit_ratio, Lit ''%'']
                  ''Increase shared_buffers or optimize queries'') st)
         else Inr st)))"

definition analyze_long_running :: "polar_state \<Rightarrow> error + polar_state" where
  "analyze_long_running st =
     on_success ''get_long_running_queries'' st (\<lambda>query_info.
       bindE (item_get query_info ''count'' (SInt 0)) (\<lambda>count.
       bindE (py_gt count 0) (\<lambda>some.
         if some then
           Inr (add_warning (warning ''get_long_running_queries''
                  [Lit ''Found '', Val count, Lit '' long-running queries (>5 minutes)'']
                  ''Review and optimize slow queries'') st)
         else Inr st)))"

definition analyze_replication :: "polar_state \<Rightarrow> error + polar_state" where
  "analyze_replication st =
     on_success ''get_replication_status'' st (\<lambda>rep_info.
       bindE (item_get rep_info ''replication_lag_bytes'' (SInt 0)) (\<lambda>lag_bytes.
       bindE (py_truediv lag_bytes (SInt 1024)) (\<lambda>lag_kb.
         let lag_mb = lag_kb / 1024
         in bindE (py_gt lag_bytes 1073741824) (\<lambda>is_critical.
              if is_critical then
                Inr (add_issue (critical ''get_replication_status''
                       [Lit ''Replication lag is critical: '', Fixed 1 lag_mb, Lit ''MB'']
                       ''Check storage I/O and network performance'') st)
              else
                bindE (py_gt lag_bytes 104857600) (\<lambda>is_elevated.
                  if is_elevated then
                    Inr (add_warning (warning ''get_replication_status''
                           [Lit ''Replication lag is elevated: '', Fixed 1 lag_mb, Lit ''MB'']
                           ''Monitor replication health'') st)
                  else Inr st)))))"

definition analyze_wal_archiver :: "polar_state \<Rightarrow> error + polar_state" where
  "analyze_wal_archiver st =
     on_success ''get_wal_archiver_status'' st (\<lambda>arch_info.
       bindE (item_get arch_info ''failed_archives'' (SInt 0)) (\<lambda>failed.
       bindE (py_gt failed 0) (\<lambda>some.
         if some then
           Inr (add_issue (critical ''get_wal_archiver_status''
                  [Lit ''WAL archiving has '', Val failed, Lit '' failures'']
                  ''Check archive_command configuration and storage availability'') st)
         else Inr st)))"

definition analyze_results :: "polar_state \<Rightarrow> error + polar_state" where
  "analyze_results st =
     bindE (analyze_node_type st) (\<lambda>st.
     bindE (analyze_logindex st) (\<lambda>st.
     bindE (analyze_pfs st) (\<lambda>st.
     bindE (analyze_connection_usage st) (\<lambda>st.
     bindE (analyze_cache_hit_rate st) (\<lambda>st.
     bindE (analyze_long_running st) (\<lambda>st.
     bindE (analyze_replication st) (\<lambda>st.
       analyze_wal_archiver st)))))))"

subsection \<open>\<^verbatim>\<open>generate_report\<close>, \<^verbatim>\<open>run\<close> and \<^verbatim>\<open>main\<close>\<close>

text \<open>The overall status line of the report, with the ANSI colour codes of
  \<^verbatim>\<open>Colors\<close>.\<close>

definition overall_status :: "polar_state \<Rightarrow> string" where
  "overall_status st =
     (if issues st \<noteq> [] then CHR 0x1B # ''[91mCRITICAL'' @ CHR 0x1B # ''[0m''
      else if warnings st \<noteq> [] then CHR 0x1B # ''[93mWARNING'' @ CHR 0x1B # ''[0m''
      else CHR 0x1B # ''[92mHEALTHY'' @ CHR 0x1B # ''[0m'')"

text \<open>One \<^verbatim>\<open>if check in self.results: ... if success and data: ...\<close> block of
  \<^verbatim>\<open>generate_report\<close>.\<close>

definition report_section ::
  "string \<Rightarrow> polar_state \<Rightarrow> (item \<Rightarrow> error + unit) \<Rightarrow> error + unit" where
  "report_section check st f =
     (case map_of (results st) check of
        None \<Rightarrow> Inr ()
      | Some data \<Rightarrow> (case first_of_success data of None \<Rightarrow> Inr () | Some x \<Rightarrow> f x))"

text \<open>
  \<^verbatim>\<open>generate_report\<close> of the PolarDB agent: the text of the report is not modelled,
  only its overall status and the operations that can raise, which are the reads of the
  first data element in the four status sections and the arithmetic on \<^verbatim>\<open>lag_bytes\<close>.
\<close>

definition polar_generate_report :: "polar_state \<Rightarrow> error + string" where
  "polar_generate_report st =
     bindE (report_section ''get_polar_node_type'' st (\<lambda>node_info.
              bindE (item_get node_info ''node_type'' (SStr ''Unknown'')) (\<lambda>v. Inr ())))
       (\<lambda>u1.
     bindE (report_section ''get_logindex_status'' st (\<lambda>lag_info.
              bindE (item_get lag_info ''lag_bytes'' (SInt 0)) (\<lambda>lag_bytes.
              bindE (py_gt lag_bytes 0) (\<lambda>positive.
              bindE (if positive
                     then bindE (py_truediv lag_bytes (SInt 1024)) (\<lambda>q. Inr (q / 1024))
                     else Inr 0) (\<lambda>lag_mb. Inr ())))))
       (\<lambda>u2.
     bindE (report_section ''get_pfs_usage'' st (\<lambda>storage_info.
              bindE (item_get storage_info ''database_size_mb'' (SInt 0)) (\<lambda>v. Inr ())))
       (\<lambda>u3.
     bindE (report_section ''get_px_workers_status'' st (\<lambda>px_info.
              bindE (item_get px_info ''polar_enable_px'' (SStr ''Unknown'')) (\<lambda>v. Inr ())))
       (\<lambda>u4. Inr (overall_status st)))))"

text \<open>\<^verbatim>\<open>run\<close> returns \<^verbatim>\<open>len(self.issues) == 0\<close>; the report file is taken to be
  written without an I/O error.\<close>

definition run ::
  "(string \<Rightarrow> string + result) \<Rightarrow> (string \<Rightarrow> proc_outcome) \<Rightarrow> error + bool" where
  "run json_loads exec =
     bindE (analyze_results (polar_init (run_all_checks json_loads exec))) (\<lambda>st.
     bindE (polar_generate_report st) (\<lambda>report. Inr (issues st = [])))"

text \<open>
  \<^verbatim>\<open>
  success = agent.run()
  sys.exit(0 if success else 1)
  \<close>
  The exit code of the process; an exception that reaches the top level ends it with 1.
\<close>

definition polar_main ::
  "(string \<Rightarrow> string + result) \<Rightarrow> (string \<Rightarrow> proc_outcome) \<Rightarrow> int" where
  "polar_main json_loads exec =
     (case run json_loads exec of
        Inl e \<Rightarrow> 1
      | Inr success \<Rightarrow> if success then 0 else 1)"

section \<open>Concrete inputs\<close>

text \<open>Scenario 6 of the specification: ten rows of \<^verbatim>\<open>get_table_bloat\<close>, the seventh with
  25 percent bloat and 150 MiB wasted, the others below both thresholds.\<close>

definition low_bloat_row :: row where
  "low_bloat_row =
     [(''schemaname'', SStr ''public''), (''tablename'', SStr ''small''),
      (''bloat_percentage'', SInt 5), (''wasted_bytes'', SInt 1024),
      (''total_bytes'', SInt 20480)]"

definition high_bloat_row :: row where
  "high_bloat_row =
     [(''schemaname'', SStr ''public''), (''tablename'', SStr ''big''),
      (''bloat_percentage'', SInt 25), (''wasted_bytes'', SInt (150 * 1024 * 1024)),
      (''total_bytes'', SInt (600 * 1024 * 1024))]"

definition ten_bloat_rows :: result where
  "ten_bloat_rows =
     no_fields\<lparr>r_skill := Some ''get_table_bloat'', r_status := Some ''success'',
       r_data := Some (Rows [low_bloat_row, low_bloat_row, low_bloat_row, low_bloat_row,
                             low_bloat_row, low_bloat_row, high_bloat_row, low_bloat_row,
                             low_bloat_row, low_bloat_row])\<rparr>"

text \<open>One replica that is 2 GiB behind.\<close>

definition lagging_replica :: result where
  "lagging_replica =
     no_fields\<lparr>r_skill := Some ''get_replication_status'', r_status := Some ''success'',
       r_data := Some (Rows [[(''client_addr'', SStr ''10.0.0.2''),
                              (''state'', SStr ''streaming''),
                              (''replay_lag_bytes'', SInt (2 * 1024 ^ 3))]])\<rparr>"

text \<open>A blocking-lock row without the field \<^verbatim>\<open>waiting_pid\<close>, and the connection row of
  scenario 1 of the specification.\<close>

definition lock_without_waiter :: result where
  "lock_without_waiter =
     no_fields\<lparr>r_skill := Some ''get_blocking_locks'', r_status := Some ''success'',
       r_data := Some (Rows [[(''blocking_pid'', SInt 4711)]])\<rparr>"

definition connection_result :: result where
  "connection_result =
     no_fields\<lparr>r_skill := Some ''get_connection_usage'', r_status := Some ''success'',
       r_data := Some (Rows [[(''current_connections'', SInt 96),
                              (''max_connections'', SInt 100)]])\<rparr>"

definition cache_hit_result :: result where
  "cache_hit_result =
     no_fields\<lparr>r_skill := Some ''get_cache_hit_rate'', r_status := Some ''success'',
       r_data := Some (Rows [[(''hit_ratio'', SInt 97)]])\<rparr>"

text \<open>The executor script exits with code 1 because the view does not exist.\<close>

definition missing_view :: proc_outcome where
  "missing_view = Completed 1 [] ''ERROR:  relation pg_replication_slots does not exist''"

text \<open>The JSON texts of three of the results above, and \<^verbatim>\<open>json.loads\<close> on the texts that
  the examples decode: these three, the empty object, and texts that are not JSON (the
  empty string and \<^verbatim>\<open>not json\<close>), for which it raises.\<close>

definition lock_json :: string where
  \<open>lock_json =
     ''{"skill": "get_blocking_locks", "status": "success", "data": [{"blocking_pid": 4711}]}''\<close>

definition connection_json :: string where
  \<open>connection_json =
     ''{"skill": "get_connection_usage", "status": "success", "data": [{"current_connections": 96, "max_connections": 100}]}''\<close>

definition cache_hit_json :: string where
  \<open>cache_hit_json =
     ''{"skill": "get_cache_hit_rate", "status": "success", "data": [{"hit_ratio": 97}]}''\<close>

definition sample_loads :: "string \<Rightarrow> string + result" where
  "sample_loads s =
     (if s = lock_json then Inr lock_without_waiter
      else if s = connection_json then Inr connection_result
      else if s = cache_hit_json then Inr cache_hit_result
      else if s = ''{}'' then Inr no_fields
      else Inl ''Expecting value: line 1 column 1 (char 0)'')"

text \<open>Parameters for the examples in which no string is converted to a float and no
  skill outside the modelled branches succeeds.\<close>

definition no_float :: "string \<Rightarrow> rat option" where
  "no_float s = None"

definition no_other_skills :: "string \<Rightarrow> result \<Rightarrow> pg_state \<Rightarrow> error + pg_state" where
  "no_other_skills skill res st = Inr st"

text \<open>What the executor does in the example runs: the script is missing for every
  check; every check runs into the timeout; the lock check prints its JSON text and the
  others exit with code 1; one check prints a JSON text and the others print nothing.\<close>

definition script_missing :: "string \<Rightarrow> proc_outcome" where
  "script_missing check = Raised ''[Errno 2] No such file or directory''"


definition only_locks :: "string \<Rightarrow> proc_outcome" where
  "only_locks check =
     (if check = ''get_blocking_locks'' then Completed 0 lock_json []
      else Completed 1 [] ''ERROR:  permission denied'')"


definition only_cache_hit :: "string \<Rightarrow> proc_outcome" where
  "only_cache_hit check =
     (if check = ''get_cache_hit_rate'' then Completed 0 cache_hit_json []
      else Completed 0 [] [])"

text \<open>The findings of a PolarDB analysis, for comparing the outcome of a run.\<close>

definition findings :: "polar_state \<Rightarrow> finding list \<times> finding list \<times> string" where
  "findings st = (issues st, warnings st, overall_status st)"

text \<open>The result that \<^verbatim>\<open>run_check\<close> builds for a check that prints nothing, and a
  connection row at \<open>n\<close> of 100 connections under the field names of both agents.\<close>

definition unknown_result :: "string \<Rightarrow> result" where
  "unknown_result c = no_fields\<lparr>r_skill := Some c, r_status := Some ''unknown'',
     r_raw_output := Some []\<rparr>"



section \<open>Auxiliary facts\<close>

subsection \<open>Errors and the status\<close>

lemma bindE_Inr [simp]: "bindE (Inr x) f = f x"
  by (simp add: bindE_def)

lemma bindE_Inl [simp]: "bindE (Inl e) f = Inl e"
  by (simp add: bindE_def)

lemma update_status_max: "update_status n s = max s n"
  by (cases n; cases s) (simp_all add: update_status_def max_def less_eq_severity_def)

lemma fold_update_status_Max:
  "fold update_status fs s = Max (insert s (set fs))"
proof -
  have "update_status = max"
    by (intro ext) (simp add: update_status_max max.commute)
  then have "fold update_status fs s = fold max fs s"
    by simp
  also have "\<dots> = Max (set (s # fs))"
    by (simp only: Max.set_eq_fold)
  finally show ?thesis by simp
qed

lemma report_status_escalate_ERROR [simp]: "report_status (escalate ERROR st) = ERROR"
  by (simp add: escalate_def update_status_def)

lemma report_status_emit [simp]: "report_status (emit ls st) = report_status st"
  by (simp add: emit_def)

subsection \<open>Strings\<close>




lemma strip_Nil: "strip [] = []"
  by (simp add: strip_def)

subsection \<open>Runs of the PostgreSQL agent\<close>

lemma analyze_non_success:
  "r_status res \<noteq> Some ''success'' \<Longrightarrow>
   analyze_and_report str_float other_skills res st =
     Inr (escalate ERROR
           (emit [[Lit ''### [x] Skill Failed: `'',
                   Lit (case r_skill res of None \<Rightarrow> ''unknown_skill'' | Some s \<Rightarrow> s), Lit ''`''],
                  [Lit ''Error details: `'',
                   Data (case r_data res of None \<Rightarrow> Rows [] | Some d \<Rightarrow> d), Lit ''`'']] st))"
  by (cases "r_status res") (simp_all add: analyze_and_report_def Let_def)

lemma checks_loop_failures:
  "(\<And>c. c \<in> set cs \<Longrightarrow> r_status (run_skill jl c (exec c)) \<noteq> Some ''success'') \<Longrightarrow>
   \<exists>st'. checks_loop jl sf os exec cs st = Inr st'
     \<and> report_status st' = (if cs = [] then report_status st else ERROR)"
proof (induction cs arbitrary: st)
  case Nil
  show ?case by simp
next
  case (Cons c cs)
  have f: "r_status (run_skill jl c (exec c)) \<noteq> Some ''success''"
    using Cons.prems by simp
  define st1 where
    "st1 = st\<lparr>raw_results := AList.update c (run_skill jl c (exec c)) (raw_results st)\<rparr>"
  obtain st2 where a: "analyze_and_report sf os (run_skill jl c (exec c)) st1 = Inr st2"
    and s2: "report_status st2 = ERROR"
    using analyze_non_success [OF f, of sf os st1] by simp
  from Cons.IH [of "emit [separator] st2"] Cons.prems
  obtain st' where l: "checks_loop jl sf os exec cs (emit [separator] st2) = Inr st'"
    and s': "report_status st' = (if cs = [] then report_status (emit [separator] st2) else ERROR)"
    by auto
  have "checks_loop jl sf os exec (c # cs) st = Inr st'"
    using a l by (simp add: Let_def st1_def)
  moreover have "report_status st' = ERROR"
    using s' s2 by simp
  ultimately show ?case by simp
qed

lemma checks_loop_append:
  "checks_loop jl sf os exec (xs @ ys) st =
     bindE (checks_loop jl sf os exec xs st) (checks_loop jl sf os exec ys)"
proof (induction xs arbitrary: st)
  case Nil
  show ?case by simp
next
  case (Cons x xs)
  show ?case
    by (cases "analyze_and_report sf os (run_skill jl x (exec x))
                 (st\<lparr>raw_results := AList.update x (run_skill jl x (exec x)) (raw_results st)\<rparr>)")
       (simp_all add: Let_def Cons.IH)
qed

lemma run_skill_Raised: "r_status (run_skill jl c (Raised e)) = Some ''fail''"
  by (simp add: run_skill_def fail_result_def no_fields_def)

lemma run_skill_rc_fail:
  "rc \<noteq> 0 \<Longrightarrow> \<not> contains ''does not exist'' stderr \<Longrightarrow>
     r_status (run_skill jl c (Completed rc out stderr)) = Some ''fail''"
  by (simp add: run_skill_def fail_result_def no_fields_def)




lemma script_missing_run:
  "map_sum id fst (run_checks jl sf os script_missing) = Inr ERROR
   \<and> pg_main jl sf os script_missing = 0"
proof -
  obtain st' where l: "checks_loop jl sf os script_missing checklist pg_init = Inr st'"
    and s: "report_status st' = (if checklist = [] then report_status pg_init else ERROR)"
    using checks_loop_failures [of checklist jl script_missing sf os pg_init]
    by (auto simp: script_missing_def run_skill_Raised)
  have "checklist \<noteq> []" by (simp add: checklist_def)
  with s have "report_status st' = ERROR" by simp
  with l show ?thesis
    by (simp add: run_checks_def pg_main_def generate_report_def)
qed

lemma lock_raises:
  "analyze_and_report sf os lock_without_waiter st = Inl (KeyError ''waiting_pid'')"
  by code_simp

lemma connection_row_raises:
  "analyze_and_report sf os connection_result st = Inl (KeyError ''used_connections'')"
  by code_simp

lemma only_locks_run:
  "run_checks sample_loads sf os only_locks = Inl (KeyError ''waiting_pid'')
   \<and> pg_main sample_loads sf os only_locks = 1"
proof -
  let ?pre = "[''get_invalid_indexes'', ''get_xid_wraparound_risk'',
               ''get_multixid_wraparound_risk'', ''get_freeze_prediction'']"
  have nc: "\<not> contains ''does not exist'' ''ERROR:  permission denied''"
    by code_simp
  have "\<exists>st'. checks_loop sample_loads sf os only_locks ?pre pg_init = Inr st'
     \<and> report_status st' = (if ?pre = [] then report_status pg_init else ERROR)"
    by (rule checks_loop_failures) (auto simp: only_locks_def run_skill_rc_fail nc)
  then obtain st' where p: "checks_loop sample_loads sf os only_locks ?pre pg_init = Inr st'"
    by blast
  have r: "run_skill sample_loads ''get_blocking_locks'' (only_locks ''get_blocking_locks'')
             = lock_without_waiter"
    by (simp add: only_locks_def run_skill_def strip_def is_space_def lock_json_def
        sample_loads_def)
  have split: "checklist = ?pre @ ''get_blocking_locks'' # drop 5 checklist"
    by (simp add: checklist_def)
  have "checks_loop sample_loads sf os only_locks
          (?pre @ ''get_blocking_locks'' # drop 5 checklist) pg_init =
        bindE (checks_loop sample_loads sf os only_locks ?pre pg_init)
          (checks_loop sample_loads sf os only_locks (''get_blocking_locks'' # drop 5 checklist))"
    by (rule checks_loop_append)
  also have "\<dots> = checks_loop sample_loads sf os only_locks
                      (''get_blocking_locks'' # drop 5 checklist) st'"
    by (simp only: p bindE_Inr)
  also have "\<dots> = Inl (KeyError ''waiting_pid'')"
    by (simp add: r lock_raises Let_def)
  finally have c: "checks_loop sample_loads sf os only_locks
          (?pre @ ''get_blocking_locks'' # drop 5 checklist) pg_init
                  = Inl (KeyError ''waiting_pid'')" .
  have "checks_loop sample_loads sf os only_locks checklist pg_init
                  = Inl (KeyError ''waiting_pid'')"
    by (subst split) (rule c)
  then show ?thesis
    by (simp add: pg_main_def run_checks_def)
qed

subsection \<open>\<^verbatim>\<open>run_check\<close> and the results of a PolarDB run\<close>

lemma run_check_TimedOut:
  "run_check jl c (TimedOut e) =
     no_fields\<lparr>r_skill := Some c, r_status := Some ''timeout'',
       r_message := Some ''Check timed out after 60 seconds''\<rparr>"
  by (simp add: run_check_def)

lemma run_check_Raised:
  "run_check jl c (Raised e) =
     no_fields\<lparr>r_skill := Some c, r_status := Some ''error'', r_message := Some e\<rparr>"
  by (simp add: run_check_def)

lemma run_check_unparseable:
  "jl (if strip out = [] then strip err else strip out) = Inl e \<Longrightarrow>
   run_check jl c (Completed rc out err) =
     no_fields\<lparr>r_skill := Some c, r_status := Some ''unknown'',
       r_raw_output := Some (if strip out = [] then strip err else strip out)\<rparr>"
  by (simp add: run_check_def Let_def)

lemma run_check_parsed:
  "jl (if strip out = [] then strip err else strip out) = Inr d \<Longrightarrow>
   run_check jl c (Completed rc out err) = d"
  by (simp add: run_check_def Let_def)

lemma map_of_update_fold:
  "map_of (fold (\<lambda>c m. AList.update c (f c) m) cs m0) k =
     (if k \<in> set cs then Some (f k) else map_of m0 k)"
  by (induction cs arbitrary: m0) (auto simp: update_conv')

lemma map_of_check_group:
  "map_of (check_group jl exec cs m) c =
     (if c \<in> set cs then Some (run_check jl c (exec c)) else map_of m c)"
  unfolding check_group_def by (rule map_of_update_fold)

lemma map_of_run_all_checks:
  "map_of (run_all_checks jl exec) c =
     (if c \<in> set (polardb_core_checks @ htap_checks @ storage_checks @ ha_checks @ pg_checks)
      then Some (run_check jl c (exec c)) else None)"
  by (simp add: run_all_checks_def map_of_check_group)

lemmas check_lists =
  polardb_core_checks_def htap_checks_def storage_checks_def ha_checks_def pg_checks_def

lemma sample_loads_empty: "sample_loads [] = Inl ''Expecting value: line 1 column 1 (char 0)''"
  by (simp add: sample_loads_def lock_json_def connection_json_def cache_hit_json_def)

lemma run_check_silent: "run_check sample_loads c (Completed 0 [] []) = unknown_result c"
  by (simp add: run_check_def strip_Nil sample_loads_empty unknown_result_def)

lemma run_check_cache_hit:
  "run_check sample_loads c (Completed 0 cache_hit_json []) = cache_hit_result"
  by (simp add: run_check_def strip_def is_space_def sample_loads_def cache_hit_json_def
      lock_json_def connection_json_def)


lemma lookup_only_cache_hit:
  "map_of (results (polar_init (run_all_checks sample_loads only_cache_hit))) c =
     (if c \<in> set (polardb_core_checks @ htap_checks @ storage_checks @ ha_checks @ pg_checks)
      then Some (if c = ''get_cache_hit_rate'' then cache_hit_result else unknown_result c)
      else None)"
  by (simp add: polar_init_def map_of_run_all_checks only_cache_hit_def run_check_silent
      run_check_cache_hit)


subsection \<open>The analysis of the PolarDB agent\<close>


lemma first_of_success_unknown: "first_of_success (unknown_result c) = None"
  by (simp add: first_of_success_def unknown_result_def no_fields_def)





lemma report_section_lookup:
  "map_of (results st) c = Some r \<Longrightarrow>
   report_section c st f = (case first_of_success r of None \<Rightarrow> Inr () | Some x \<Rightarrow> f x)"
  by (simp add: report_section_def)

lemma results_add_issue [simp]: "results (add_issue f st) = results st"
  by (simp add: add_issue_def)

lemma results_add_warning [simp]: "results (add_warning f st) = results st"
  by (simp add: add_warning_def)





lemma only_cache_hit_run:
  "map_sum id findings (analyze_results (polar_init (run_all_checks sample_loads only_cache_hit)))
     = Inr ([],
            [warning ''get_cache_hit_rate''
               [Lit ''Cache hit rate is low: '', Val (SInt 97), Lit ''%'']
               ''Increase shared_buffers or optimize queries''],
            CHR 0x1B # ''[93mWARNING'' @ CHR 0x1B # ''[0m'')
   \<and> polar_main sample_loads only_cache_hit = 0"
proof -
  let ?st = "polar_init (run_all_checks sample_loads only_cache_hit)"
  let ?w = "warning ''get_cache_hit_rate''
               [Lit ''Cache hit rate is low: '', Val (SInt 97), Lit ''%'']
               ''Increase shared_buffers or optimize queries''"
  have L: "\<And>c. map_of (results ?st) c =
     (if c \<in> set (polardb_core_checks @ htap_checks @ storage_checks @ ha_checks @ pg_checks)
      then Some (if c = ''get_cache_hit_rate'' then cache_hit_result else unknown_result c)
      else None)"
    by (rule lookup_only_cache_hit)
  have iw: "issues ?st = []" "warnings ?st = []"
    by (simp_all add: polar_init_def)
  have s1: "analyze_node_type ?st = Inr ?st" "analyze_logindex ?st = Inr ?st"
    "analyze_pfs ?st = Inr ?st" "analyze_connection_usage ?st = Inr ?st"
    by (simp_all add: analyze_node_type_def analyze_logindex_def analyze_pfs_def
        analyze_connection_usage_def on_success_def L check_lists first_of_success_unknown)
  have s2: "analyze_cache_hit_rate ?st = Inr (add_warning ?w ?st)"
    by (simp add: analyze_cache_hit_rate_def on_success_def L check_lists cache_hit_result_def
        first_of_success_def no_fields_def py_lt_def)
  have s3: "analyze_long_running (add_warning ?w ?st) = Inr (add_warning ?w ?st)"
    "analyze_replication (add_warning ?w ?st) = Inr (add_warning ?w ?st)"
    "analyze_wal_archiver (add_warning ?w ?st) = Inr (add_warning ?w ?st)"
    by (simp_all add: analyze_long_running_def analyze_replication_def analyze_wal_archiver_def
        on_success_def L check_lists first_of_success_unknown)
  have a: "analyze_results ?st = Inr (add_warning ?w ?st)"
    by (simp add: analyze_results_def s1 s2 s3)
  have g: "polar_generate_report (add_warning ?w ?st) = Inr (overall_status (add_warning ?w ?st))"
    by (simp add: polar_generate_report_def report_section_def L check_lists
        first_of_success_unknown)
  have f: "findings (add_warning ?w ?st) = ([], [?w], CHR 0x1B # ''[93mWARNING'' @ CHR 0x1B # ''[0m'')"
    by (simp add: findings_def add_warning_def overall_status_def iw)
  have i: "issues (add_warning ?w ?st) = []"
    by (simp add: add_warning_def iw)
  show ?thesis
    using a g f i by (simp add: run_def polar_main_def)
qed


subsection \<open>Exit codes\<close>

lemma polar_main_zero:
  "polar_main jl exec = 0 \<longleftrightarrow>
     (\<exists>st doc. analyze_results (polar_init (run_all_checks jl exec)) = Inr st
        \<and> polar_generate_report st = Inr doc \<and> issues st = [])"
  by (auto simp: polar_main_def run_def bindE_def split: sum.splits)

lemma polar_main_range: "polar_main jl exec = 0 \<or> polar_main jl exec = 1"
  by (simp add: polar_main_def split: sum.splits)

lemma overall_status_critical:
  "issues st = [] \<longleftrightarrow> overall_status st \<noteq> CHR 0x1B # ''[91mCRITICAL'' @ CHR 0x1B # ''[0m''"
  by (simp add: overall_status_def)

lemma pg_main_zero:
  "pg_main jl sf os exec = 0 \<longleftrightarrow> (\<exists>status doc. run_checks jl sf os exec = Inr (status, doc))"
  by (cases "run_checks jl sf os exec") (auto simp: pg_main_def)

lemma pg_main_range: "pg_main jl sf os exec = 0 \<or> pg_main jl sf os exec = 1"
  by (simp add: pg_main_def split: sum.splits)

subsection \<open>Connection usage\<close>






section \<open>The claims\<close>

text \<open>
  Claim C1 says that a bloat block with a row above both thresholds (more than 20 percent
  bloat and more than 100 MiB wasted) ends with the WARNING header in place of its
  provisional INFO header, in particular for ten rows of which only the seventh is above
  the thresholds. On that input, from the empty report, \<^verbatim>\<open>_analyze_and_report\<close> returns
  thirteen lines and status WARNING, but the first line is still the INFO header: the
  assignment to index \<^verbatim>\<open>len(self.report) - len(data) - 2\<close> replaces the second line, the
  column header of the table.
\<close>

theorem bloat_header_stays_info:
  "map_sum id (\<lambda>st. (take 3 (report st), length (report st), report_status st))
     (analyze_and_report str_float other_skills ten_bloat_rows pg_init) =
   Inr ([[Lit ''### [i] INFO: Top 10 Bloated Tables''],
         [Lit ''### [!] WARNING: Significant Table Bloat Detected''],
         [Lit ''|---|---|---|---|---|'']], 13, WARNING)"
  by code_simp

text \<open>
  Claim C2. The status aggregation of \<^verbatim>\<open>_update_status\<close> is a fold by \<open>max\<close> over the
  order \<open>OK < WARNING < ERROR\<close>: one call never lowers the stored status and stores the
  maximum of the old status and the new one; the combine operation is commutative,
  associative and idempotent; starting from \<open>OK\<close>, the status after the findings
  \<open>fs\<close> is the greatest severity among them (and \<open>OK\<close>), and two runs over the same
  findings in different orders end in the same status.
\<close>

theorem update_status_monotone_fold:
  "OK < WARNING \<and> WARNING < ERROR
   \<and> s \<le> update_status n s
   \<and> update_status n s = max s n
   \<and> update_status a b = update_status b a
   \<and> update_status a (update_status b c) = update_status (update_status a b) c
   \<and> update_status a a = a
   \<and> fold update_status fs OK = Max (insert OK (set fs))
   \<and> (mset fs = mset gs \<longrightarrow> fold update_status fs s = fold update_status gs s)"
proof -
  have ord: "OK < WARNING \<and> WARNING < ERROR"
    by (simp add: less_severity_def)
  have mono: "s \<le> update_status n s"
    by (simp add: update_status_max)
  have comm: "update_status a b = update_status b a"
    by (simp add: update_status_max max.commute)
  have assoc: "update_status a (update_status b c) = update_status (update_status a b) c"
    by (simp add: update_status_max max.assoc max.commute max.left_commute)
  have idem: "update_status a a = a"
    by (simp add: update_status_max)
  have perm: "mset fs = mset gs \<longrightarrow> fold update_status fs s = fold update_status gs s"
  proof
    assume "mset fs = mset gs"
    then have "set fs = set gs" by (rule mset_eq_setD)
    then show "fold update_status fs s = fold update_status gs s"
      by (simp add: fold_update_status_Max)
  qed
  from ord mono comm assoc idem perm show ?thesis
    by (simp add: update_status_max fold_update_status_Max)
qed

theorem update_status_monotone_fold_witness:
  "mset [WARNING, ERROR, OK] = mset [OK, ERROR, WARNING]
   \<and> fold update_status [WARNING, ERROR, OK] OK = ERROR
   \<and> fold update_status [OK, ERROR, WARNING] OK = ERROR
   \<and> OK \<le> update_status WARNING OK"
proof -
  have h: "mset [WARNING, ERROR, OK] = mset [OK, ERROR, WARNING]"
    by simp
  have e: "fold update_status [WARNING, ERROR, OK] OK = ERROR"
    by (simp add: update_status_def)
  from update_status_monotone_fold
    [of OK WARNING OK OK OK "[WARNING, ERROR, OK]" "[OK, ERROR, WARNING]"]
  have "OK \<le> update_status WARNING OK"
    and "mset [WARNING, ERROR, OK] = mset [OK, ERROR, WARNING]
      \<longrightarrow> fold update_status [WARNING, ERROR, OK] OK = fold update_status [OK, ERROR, WARNING] OK"
    by blast+
  with h e show ?thesis by simp
qed




text \<open>
  Claim C4, amended. The PolarDB agent exits with 0 exactly when the run completes
  with no critical issue, that is with an overall status other than CRITICAL (HEALTHY or
  WARNING), and with 1 otherwise. The PostgreSQL agent exits with 0 exactly when
  \<^verbatim>\<open>run_checks\<close> completes, whatever the overall status is, and with 1 when an exception
  reaches the top level.
\<close>

theorem exit_code_rule:
  "(polar_main json_loads exec = 0 \<longleftrightarrow>
      (\<exists>st doc. analyze_results (polar_init (run_all_checks json_loads exec)) = Inr st
         \<and> polar_generate_report st = Inr doc \<and> issues st = []))
   \<and> (polar_main json_loads exec = 0 \<or> polar_main json_loads exec = 1)
   \<and> (issues pst = [] \<longleftrightarrow>
        overall_status pst \<noteq> CHR 0x1B # ''[91mCRITICAL'' @ CHR 0x1B # ''[0m'')
   \<and> (pg_main json_loads str_float other_skills exec = 0 \<longleftrightarrow>
        (\<exists>status doc. run_checks json_loads str_float other_skills exec = Inr (status, doc)))
   \<and> (pg_main json_loads str_float other_skills exec = 0
        \<or> pg_main json_loads str_float other_skills exec = 1)"
  using polar_main_zero [of json_loads exec] polar_main_range [of json_loads exec]
    overall_status_critical [of pst] pg_main_zero [of json_loads str_float other_skills exec]
    pg_main_range [of json_loads str_float other_skills exec]
  by blast

text \<open>The claim as stated fails for both agents: a PostgreSQL run in which every check
  fails ends with status ERROR and exit code 0, and a PolarDB run whose only finding is
  the cache hit rate warning ends with status WARNING and exit code 0.\<close>

theorem exit_code_counterexample:
  "map_sum id fst (run_checks sample_loads no_float no_other_skills script_missing) = Inr ERROR
   \<and> pg_main sample_loads no_float no_other_skills script_missing = 0
   \<and> map_sum id findings
         (analyze_results (polar_init (run_all_checks sample_loads only_cache_hit)))
       = Inr ([],
              [warning ''get_cache_hit_rate''
                 [Lit ''Cache hit rate is low: '', Val (SInt 97), Lit ''%'']
                 ''Increase shared_buffers or optimize queries''],
              CHR 0x1B # ''[93mWARNING'' @ CHR 0x1B # ''[0m'')
   \<and> polar_main sample_loads only_cache_hit = 0"
  using script_missing_run [of sample_loads no_float no_other_skills] only_cache_hit_run
  by blast

text \<open>
  Claim C5 says that for \<^verbatim>\<open>get_replication_status\<close> a replay lag above 1 GiB raises the
  overall status to ERROR and that the rewritten header of the block shows ERROR. For one
  replica that is 2 GiB behind the overall status becomes ERROR, but the header is
  rewritten to the WARNING header: the block has one header text for both thresholds.
\<close>

theorem replication_header_under_reports:
  "analyze_and_report str_float other_skills lagging_replica pg_init =
     Inr \<lparr>report =
            [[Lit ''### [!] WARNING: Replication Lag Detected''],
             [Lit ''- **Replica:** `'', Val (SStr ''10.0.0.2''), Lit ''`, **State:** `'',
              Val (SStr ''streaming''), Lit ''`, **Replay Lag:** `'', Fixed 2 2048,
              Lit '' MB`'']],
          report_status = ERROR, raw_results = []\<rparr>"
  by code_simp

text \<open>
  Claim C6 says that the rule of every recognised skill is total on results of status
  \<^verbatim>\<open>success\<close>, a missing field being rendered as a placeholder. The branch of
  \<^verbatim>\<open>get_blocking_locks\<close> reads \<^verbatim>\<open>lock['waiting_pid']\<close> and the branch of
  \<^verbatim>\<open>get_connection_usage\<close> reads \<^verbatim>\<open>data[0]["used_connections"]\<close>: on a row without
  the field both raise \<^verbatim>\<open>KeyError\<close>, in any state, and a run in which the lock check
  returns such a row ends with that exception and exit code 1, without a report.
\<close>

theorem missing_field_aborts_run:
  "analyze_and_report str_float other_skills lock_without_waiter st
     = Inl (KeyError ''waiting_pid'')
   \<and> analyze_and_report str_float other_skills connection_result st
     = Inl (KeyError ''used_connections'')
   \<and> run_checks sample_loads str_float other_skills only_locks = Inl (KeyError ''waiting_pid'')
   \<and> pg_main sample_loads str_float other_skills only_locks = 1"
  using lock_raises [of str_float other_skills st]
    connection_row_raises [of str_float other_skills st]
    only_locks_run [of str_float other_skills]
  by blast



text \<open>
  Claim C8 says that \<^verbatim>\<open>get_replication_slots\<close> with status \<^verbatim>\<open>success\<close> and empty data
  renders \<^verbatim>\<open>No replication slots found.\<close> when \<^verbatim>\<open>notes\<close> is empty, and renders the
  block as not applicable when the result carries the note of a missing view. The first
  half holds. The note that \<^verbatim>\<open>_run_skill\<close> writes for a missing view is
  \<^verbatim>\<open>view or table does not exist: \<close> followed by the error output, and the branch
  compares \<^verbatim>\<open>notes\<close> for equality with \<^verbatim>\<open>view or table does not exist\<close>: the result of
  \<^verbatim>\<open>_run_skill\<close> is rendered as \<^verbatim>\<open>No replication slots found.\<close> too, and only a note
  that equals the short text reaches the line for a view that does not exist.
\<close>

theorem missing_view_reported_as_no_slots:
  "run_skill json_loads ''get_replication_slots'' missing_view =
     no_fields\<lparr>r_skill := Some ''get_replication_slots'', r_status := Some ''success'',
       r_data := Some (Rows []),
       r_notes := Some ''view or table does not exist: ERROR:  relation pg_replication_slots does not exist''\<rparr>
   \<and> analyze_and_report str_float other_skills
         (run_skill json_loads ''get_replication_slots'' missing_view) pg_init =
       Inr \<lparr>report = [[Lit ''### [i] INFO: Replication Slots Status''],
                       [Lit ''No replication slots found.'']],
            report_status = OK, raw_results = []\<rparr>
   \<and> analyze_and_report str_float other_skills
         (no_fields\<lparr>r_skill := Some ''get_replication_slots'', r_status := Some ''success'',
            r_data := Some (Rows []), r_notes := Some []\<rparr>) pg_init =
       Inr \<lparr>report = [[Lit ''### [i] INFO: Replication Slots Status''],
                       [Lit ''No replication slots found.'']],
            report_status = OK, raw_results = []\<rparr>
   \<and> analyze_and_report str_float other_skills
         (no_fields\<lparr>r_skill := Some ''get_replication_slots'', r_status := Some ''success'',
            r_data := Some (Rows []), r_notes := Some ''view or table does not exist''\<rparr>) pg_init =
       Inr \<lparr>report = [[Lit ''### [i] INFO: Replication Slots Status''],
                       [Lit ''Replication slots are not applicable or view does not exist.'']],
            report_status = OK, raw_results = []\<rparr>"
  by code_simp




text \<open>
  Claim C10, amended. \<^verbatim>\<open>run_check\<close> returns a result for every outcome of the
  subprocess: for a timeout the result of status \<^verbatim>\<open>timeout\<close> with the message
  \<^verbatim>\<open>Check timed out after 60 seconds\<close>, for any other exception the result of status
  \<^verbatim>\<open>error\<close> with the exception's text, for an output that is not JSON the result of
  status \<^verbatim>\<open>unknown\<close> with the raw text in \<^verbatim>\<open>raw_output\<close>, each with the check's name
  in \<^verbatim>\<open>skill\<close>; and for an output that is JSON the decoded object, unchanged, whatever
  keys it has.
\<close>

theorem run_check_paths:
  "run_check json_loads check (TimedOut e) =
     no_fields\<lparr>r_skill := Some check, r_status := Some ''timeout'',
       r_message := Some ''Check timed out after 60 seconds''\<rparr>
   \<and> run_check json_loads check (Raised e) =
     no_fields\<lparr>r_skill := Some check, r_status := Some ''error'', r_message := Some e\<rparr>
   \<and> (case json_loads (if strip stdout = [] then strip stderr else strip stdout) of
        Inr data \<Rightarrow> run_check json_loads check (Completed returncode stdout stderr) = data
      | Inl err \<Rightarrow>
          run_check json_loads check (Completed returncode stdout stderr) =
            no_fields\<lparr>r_skill := Some check, r_status := Some ''unknown'',
              r_raw_output := Some (if strip stdout = [] then strip stderr else strip stdout)\<rparr>)
   \<and> ((\<exists>rc out err data. outcome = Completed rc out err
          \<and> json_loads (if strip out = [] then strip err else strip out) = Inr data
          \<and> run_check json_loads check outcome = data)
        \<or> (r_skill (run_check json_loads check outcome) = Some check
            \<and> r_status (run_check json_loads check outcome)
                \<in> {Some ''timeout'', Some ''unknown'', Some ''error''}))"
proof -
  have c: "case json_loads (if strip stdout = [] then strip stderr else strip stdout) of
        Inr data \<Rightarrow> run_check json_loads check (Completed returncode stdout stderr) = data
      | Inl err \<Rightarrow>
          run_check json_loads check (Completed returncode stdout stderr) =
            no_fields\<lparr>r_skill := Some check, r_status := Some ''unknown'',
              r_raw_output := Some (if strip stdout = [] then strip stderr else strip stdout)\<rparr>"
    by (simp add: run_check_def Let_def split: sum.splits)
  have d: "(\<exists>rc out err data. outcome = Completed rc out err
          \<and> json_loads (if strip out = [] then strip err else strip out) = Inr data
          \<and> run_check json_loads check outcome = data)
        \<or> (r_skill (run_check json_loads check outcome) = Some check
            \<and> r_status (run_check json_loads check outcome)
                \<in> {Some ''timeout'', Some ''unknown'', Some ''error''})"
  proof (cases outcome)
    case (Completed rc out err)
    show ?thesis
    proof (cases "json_loads (if strip out = [] then strip err else strip out)")
      case (Inl e')
      then have "run_check json_loads check outcome =
        no_fields\<lparr>r_skill := Some check, r_status := Some ''unknown'',
          r_raw_output := Some (if strip out = [] then strip err else strip out)\<rparr>"
        unfolding Completed by (rule run_check_unparseable)
      then show ?thesis by (simp add: no_fields_def)
    next
      case (Inr data)
      then have "run_check json_loads check outcome = data"
        unfolding Completed by (rule run_check_parsed)
      with Inr Completed show ?thesis by blast
    qed
  next
    case (TimedOut e')
    then show ?thesis by (simp add: run_check_TimedOut no_fields_def)
  next
    case (Raised e')
    then show ?thesis by (simp add: run_check_Raised no_fields_def)
  qed
  show ?thesis
    using c d run_check_TimedOut [of json_loads "check" e] run_check_Raised [of json_loads "check" e]
    by blast
qed

text \<open>The claim as stated fails on the path of a decoded output: for the output
  \<^verbatim>\<open>{}\<close> the result has neither \<^verbatim>\<open>skill\<close> nor \<^verbatim>\<open>status\<close>.\<close>

theorem run_check_paths_counterexample:
  "run_check sample_loads ''get_pfs_usage'' (Completed 0 ''{}'' []) = no_fields
   \<and> r_skill (run_check sample_loads ''get_pfs_usage'' (Completed 0 ''{}'' [])) = None
   \<and> r_status (run_check sample_loads ''get_pfs_usage'' (Completed 0 ''{}'' [])) = None"
proof -
  have s: "strip ''{}'' = ''{}''"
    by (simp add: strip_def is_space_def)
  have l: "sample_loads ''{}'' = Inr no_fields"
    by (simp add: sample_loads_def lock_json_def connection_json_def cache_hit_json_def)
  have "run_check sample_loads ''get_pfs_usage'' (Completed 0 ''{}'' []) = no_fields"
    by (simp add: run_check_def s l)
  then show ?thesis by (simp add: no_fields_def)
qed

end
